theory Spec2Isabelle
  imports Complex_Main "HOL-Library.Word"
begin

unbundle bit_operations_syntax

section \<open>A Redis-backed Bloom filter (package bloom)\<close>

text \<open>
  The development embeds the Go package \<^verbatim>\<open>bloom\<close>: the constructor
  \<^verbatim>\<open>NewBloomFilter\<close>, the position generator \<^verbatim>\<open>getHashPositions\<close> and the two
  operations \<^verbatim>\<open>Add\<close> and \<^verbatim>\<open>Exists\<close> of \<^verbatim>\<open>bloom/bloom.go\<close>. The Redis server is not
  part of the package; it is modelled as a bit store that the operations read and write
  through pipelined batches, with the outcome of every network exchange (delivered or
  failed) supplied by the environment.
\<close>

subsection \<open>Errors\<close>

text \<open>
  The four error values of the package, and \<open>StoreError\<close> for any error handed back by
  the Redis client library when a pipeline is executed. Go's \<^verbatim>\<open>nil\<close> error is \<open>None\<close> of
  \<open>error option\<close>.
\<close>

datatype error =
    ErrInvalidExpectedInsertions
  | ErrInvalidFalsePositiveRate
  | ErrEmptyRedisKey
  | ErrNilRedisClient
  | StoreError string

subsection \<open>Values of type float64, as far as they are compared\<close>

text \<open>
  \<^verbatim>\<open>Config.FalsePositiveRate\<close> is a \<^verbatim>\<open>float64\<close>. The constructor only compares it with
  the constants 0 and 1, and IEEE 754 comparisons are exact, so a float64 is modelled by
  its value: a real number, an infinity, or NaN. Every ordered comparison with NaN is
  false.
\<close>

datatype float64 = NaN | NegInf | Finite real | PosInf

fun float64_le :: "float64 \<Rightarrow> real \<Rightarrow> bool" where
  "float64_le NaN c = False"
| "float64_le NegInf c = True"
| "float64_le (Finite r) c = (r \<le> c)"
| "float64_le PosInf c = False"

fun float64_ge :: "float64 \<Rightarrow> real \<Rightarrow> bool" where
  "float64_ge NaN c = False"
| "float64_ge NegInf c = False"
| "float64_ge (Finite r) c = (r \<ge> c)"
| "float64_ge PosInf c = True"

subsection \<open>Hash strategies, clients and configuration\<close>

type_synonym byte = "8 word"

text \<open>\<^verbatim>\<open>HashStrategy.Hash(data []byte, i uint) uint64\<close>\<close>

type_synonym HashStrategy = "byte list \<Rightarrow> nat \<Rightarrow> 64 word"

text \<open>
  A pipelined command, as queued by \<^verbatim>\<open>pipeliner.SetBit(ctx, key, offset, value)\<close> and
  \<^verbatim>\<open>pipeliner.GetBit(ctx, key, offset)\<close>; the offset is an \<^verbatim>\<open>int64\<close>. A pipeliner is the
  queue of commands it holds.
\<close>

datatype cmd = SetBit string int int | GetBit string int

type_synonym pipeliner = "cmd list"

text \<open>
  A value of interface type \<^verbatim>\<open>RedisClient\<close>. Two facts about it decide what \<^verbatim>\<open>Add\<close> and
  \<^verbatim>\<open>Exists\<close> do: whether its dynamic type is \<^verbatim>\<open>*RedisAdapter\<close> (only then the wrapped
  \<^verbatim>\<open>redis.Cmdable\<close> with its \<^verbatim>\<open>Expire\<close> is reachable), and whether its \<^verbatim>\<open>Pipeline()\<close>
  returns the nil interface (the only value of static type \<^verbatim>\<open>pipeliner\<close> on which the
  type assertion \<^verbatim>\<open>.(pipeliner)\<close> fails).
\<close>

record RedisClient =
  is_RedisAdapter :: bool
  pipeline_nil :: bool

definition Pipeline :: "RedisClient \<Rightarrow> pipeliner option" where
  "Pipeline c = (if pipeline_nil c then None else Some [])"

text \<open>
  \<^verbatim>\<open>type Config struct\<close>. A nil \<^verbatim>\<open>RedisClient\<close> or \<^verbatim>\<open>HashStrategy\<close> is \<open>None\<close>;
  \<^verbatim>\<open>TTL\<close> is a \<^verbatim>\<open>time.Duration\<close>, a signed count of nanoseconds.
\<close>

record Config =
  RedisKey :: string
  RedisClient :: "RedisClient option"
  ExpectedInsertions :: "64 word"
  FalsePositiveRate :: float64
  TTL :: int
  HashStrategy :: "HashStrategy option"

text \<open>
  \<^verbatim>\<open>type bloomFilter struct\<close>. \<^verbatim>\<open>hashCount\<close> is a \<^verbatim>\<open>uint\<close>; it is used as a slice
  length and a loop bound, and enters the arithmetic only through \<^verbatim>\<open>uint64(i)\<close>.
\<close>

record bloomFilter =
  config :: Config
  bitSize :: "64 word"
  hashCount :: nat
  hashStrategy :: HashStrategy

subsection \<open>Construction\<close>

text \<open>
  \<^verbatim>\<open>NewBloomFilter\<close>. The parameter calculator works in float64 arithmetic
  (\<^verbatim>\<open>math.Log\<close>, \<^verbatim>\<open>math.Ceil\<close>, conversions between \<^verbatim>\<open>uint64\<close> and \<^verbatim>\<open>float64\<close>) and the
  default strategy is the external xxhash library; both are parameters here, under their
  source names.
\<close>

definition NewBloomFilter ::
  "(64 word \<Rightarrow> float64 \<Rightarrow> 64 word \<times> nat) \<Rightarrow> HashStrategy \<Rightarrow> Config \<Rightarrow> error + bloomFilter" where
  "NewBloomFilter calculateOptimalParameters NewXXHashStrategy cfg =
     (if ExpectedInsertions cfg = 0 then Inl ErrInvalidExpectedInsertions
      else if float64_le (FalsePositiveRate cfg) 0 \<or> float64_ge (FalsePositiveRate cfg) 1
        then Inl ErrInvalidFalsePositiveRate
      else if RedisKey cfg = [] then Inl ErrEmptyRedisKey
      else if RedisClient cfg = None then Inl ErrNilRedisClient
      else
        let (bitSize', hashCount') =
              calculateOptimalParameters (ExpectedInsertions cfg) (FalsePositiveRate cfg);
            strategy = (case HashStrategy cfg of None \<Rightarrow> NewXXHashStrategy | Some s \<Rightarrow> s);
            cfg' = cfg\<lparr>HashStrategy := Some strategy\<rparr>
        in Inr \<lparr>config = cfg', bitSize = bitSize', hashCount = hashCount',
                hashStrategy = strategy\<rparr>)"

subsection \<open>Bit positions by double hashing\<close>

text \<open>
  The loop of \<^verbatim>\<open>getHashPositions\<close>: for \<open>i\<close> from its current value up to \<open>k\<close>, store
  \<^verbatim>\<open>(h1 + uint64(i)*h2) % bitSize\<close> at index \<open>i\<close>. Go's integer division by zero panics;
  the panic is \<open>None\<close>. Addition and multiplication wrap at 64 bits.
\<close>

function positions_loop ::
  "nat \<Rightarrow> nat \<Rightarrow> 64 word \<Rightarrow> 64 word \<Rightarrow> 64 word \<Rightarrow> 64 word list \<Rightarrow> 64 word list option" where
  "positions_loop i k h1 h2 m positions =
     (if i < k then
        (if m = 0 then None
         else positions_loop (i + 1) k h1 h2 m
                (positions[i := (h1 + of_nat i * h2) mod m]))
      else Some positions)"
  by pat_completeness auto
termination
  by (relation "measure (\<lambda>(i, k, h1, h2, m, positions). k - i)") auto

declare positions_loop.simps [simp del]

definition getHashPositions :: "bloomFilter \<Rightarrow> byte list \<Rightarrow> 64 word list option" where
  "getHashPositions bf data =
     (let positions = replicate (hashCount bf) 0;
          h1 = hashStrategy bf data 0;
          h2 = hashStrategy bf data 1;
          h2 = (if h2 mod 2 = 0 then h2 + 1 else h2)
      in positions_loop 0 (hashCount bf) h1 h2 (bitSize bf) positions)"

subsection \<open>The Redis server, seen through the client library\<close>

text \<open>
  The server holds, for every key, a string of bits (here the set of pairs of a key and an
  offset whose bit is 1; a key that does not exist reads as all zeros) and an optional
  time to live. \<open>issued\<close> records every request the filter sent, in order, whether or
  not it reached the server.
\<close>

datatype request = is_Batch: Batch "cmd list" | is_Expire: Expire string int

record redis =
  bits :: "(string \<times> int) set"
  expiry :: "string \<Rightarrow> int option"
  issued :: "request list"

text \<open>
  One command at the server: SETBIT stores the bit and replies with the previous one,
  GETBIT replies with the current one.
\<close>

fun exec_cmd :: "cmd \<Rightarrow> (string \<times> int) set \<Rightarrow> int \<times> (string \<times> int) set" where
  "exec_cmd (SetBit key offset v) B =
     ((if (key, offset) \<in> B then 1 else 0),
      (if v = 0 then B - {(key, offset)} else insert (key, offset) B))"
| "exec_cmd (GetBit key offset) B = ((if (key, offset) \<in> B then 1 else 0), B)"

fun run_all :: "cmd list \<Rightarrow> (string \<times> int) set \<Rightarrow> int list \<times> (string \<times> int) set" where
  "run_all [] B = ([], B)"
| "run_all (c # cs) B =
     (let (v, B') = exec_cmd c B; (vs, B'') = run_all cs B' in (v # vs, B''))"

text \<open>
  A failed batch may have been applied in part: \<open>run_some landed cmds\<close> applies the
  commands whose flag in \<open>landed\<close> is set and drops the others.
\<close>

fun run_some :: "bool list \<Rightarrow> cmd list \<Rightarrow> (string \<times> int) set \<Rightarrow> (string \<times> int) set" where
  "run_some (l # ls) (c # cs) B = run_some ls cs (if l then snd (exec_cmd c B) else B)"
| "run_some ls cs B = B"

text \<open>
  What the environment decides about one \<^verbatim>\<open>pipe.Exec(ctx)\<close>: every command is executed and
  answered, or the call returns an error after some of the commands landed.
\<close>

datatype exec_outcome = Delivered | Failed error "bool list"

definition Exec :: "exec_outcome \<Rightarrow> pipeliner \<Rightarrow> redis \<Rightarrow> (error + int list) \<times> redis" where
  "Exec outcome pipe r =
     (case outcome of
        Delivered \<Rightarrow>
          (let (vals, B) = run_all pipe (bits r)
           in (Inr vals, r\<lparr>bits := B, issued := issued r @ [Batch pipe]\<rparr>))
      | Failed err landed \<Rightarrow>
          (Inl err, r\<lparr>bits := run_some landed pipe (bits r),
                      issued := issued r @ [Batch pipe]\<rparr>))"

text \<open>
  \<^verbatim>\<open>client.Expire(ctx, key, ttl)\<close>: the request is issued; the key's time to live changes
  when the request succeeds.
\<close>

definition Expire_call :: "bool \<Rightarrow> string \<Rightarrow> int \<Rightarrow> redis \<Rightarrow> redis" where
  "Expire_call succeeds key ttl r =
     r\<lparr>expiry := (if succeeds then (expiry r)(key := Some ttl) else expiry r),
       issued := issued r @ [Expire key ttl]\<rparr>"

subsection \<open>Add and Exists\<close>

text \<open>
  \<^verbatim>\<open>for _, pos := range positions { pipe.SetBit(ctx, key, int64(pos), 1) }\<close> and its
  \<^verbatim>\<open>GetBit\<close> counterpart. \<^verbatim>\<open>int64(pos)\<close> reinterprets the 64 bits as a signed value.
\<close>

fun queue_SetBits :: "string \<Rightarrow> 64 word list \<Rightarrow> pipeliner \<Rightarrow> pipeliner" where
  "queue_SetBits key [] pipe = pipe"
| "queue_SetBits key (pos # positions) pipe =
     queue_SetBits key positions (pipe @ [SetBit key (sint pos) 1])"

fun queue_GetBits :: "string \<Rightarrow> 64 word list \<Rightarrow> pipeliner \<Rightarrow> pipeliner" where
  "queue_GetBits key [] pipe = pipe"
| "queue_GetBits key (pos # positions) pipe =
     queue_GetBits key positions (pipe @ [GetBit key (sint pos)])"

text \<open>
  \<^verbatim>\<open>Add\<close>. The result is \<open>None\<close> when the call panics (division by zero in
  \<^verbatim>\<open>getHashPositions\<close>, or a method call on a nil client); otherwise it is the returned
  error (\<open>None\<close> for nil) and the state of the server afterwards. \<open>outcome\<close> is what
  happens to the batch and \<open>expire_succeeds\<close> what happens to the expiry request, when
  one is made; its result is discarded by the code.
\<close>

definition Add ::
  "bloomFilter \<Rightarrow> byte list \<Rightarrow> exec_outcome \<Rightarrow> bool \<Rightarrow> redis \<Rightarrow> (error option \<times> redis) option" where
  "Add bf data outcome expire_succeeds r =
     (case getHashPositions bf data of
        None \<Rightarrow> None
      | Some positions \<Rightarrow>
          (case RedisClient (config bf) of
             None \<Rightarrow> None
           | Some client \<Rightarrow>
               (case Pipeline client of
                  None \<Rightarrow> Some (Some ErrNilRedisClient, r)
                | Some pipe \<Rightarrow>
                    (let pipe' = queue_SetBits (RedisKey (config bf)) positions pipe;
                         (res, r') = Exec outcome pipe' r
                     in case res of
                          Inl err \<Rightarrow> Some (Some err, r')
                        | Inr vals \<Rightarrow>
                            (if TTL (config bf) > 0 then
                               (if is_RedisAdapter client then
                                  Some (None, Expire_call expire_succeeds
                                                (RedisKey (config bf)) (TTL (config bf)) r')
                                else Some (None, r'))
                             else Some (None, r'))))))"

text \<open>
  The final loop of \<^verbatim>\<open>Exists\<close>: \<^verbatim>\<open>false\<close> at the first reply that is 0, \<^verbatim>\<open>true\<close> when
  there is none.
\<close>

fun all_bits_set :: "int list \<Rightarrow> bool" where
  "all_bits_set [] = True"
| "all_bits_set (v # vals) = (if v = 0 then False else all_bits_set vals)"

definition Exists ::
  "bloomFilter \<Rightarrow> byte list \<Rightarrow> exec_outcome \<Rightarrow> redis \<Rightarrow> ((bool \<times> error option) \<times> redis) option" where
  "Exists bf data outcome r =
     (case getHashPositions bf data of
        None \<Rightarrow> None
      | Some positions \<Rightarrow>
          (case RedisClient (config bf) of
             None \<Rightarrow> None
           | Some client \<Rightarrow>
               (case Pipeline client of
                  None \<Rightarrow> Some ((False, Some ErrNilRedisClient), r)
                | Some pipe \<Rightarrow>
                    (let pipe' = queue_GetBits (RedisKey (config bf)) positions pipe;
                         (res, r') = Exec outcome pipe' r
                     in case res of
                          Inl err \<Rightarrow> Some ((False, Some err), r')
                        | Inr vals \<Rightarrow> Some ((all_bits_set vals, None), r')))))"

subsection \<open>A concrete strategy and concrete handles\<close>

text \<open>
  \<^verbatim>\<open>FNVStrategy.Hash\<close>: FNV-1a over the four low bytes of the round index, least
  significant first, followed by the data. \<open>fnv64a\<close> is \<^verbatim>\<open>Write\<close> of Go's
  \<^verbatim>\<open>hash/fnv\<close> 64-bit FNV-1a state (xor the byte in, multiply by the prime), started from
  the offset basis by \<^verbatim>\<open>fnv.New64a()\<close>.
\<close>

fun fnv64a :: "64 word \<Rightarrow> byte list \<Rightarrow> 64 word" where
  "fnv64a h [] = h"
| "fnv64a h (b # bs) = fnv64a ((h XOR ucast b) * 1099511628211) bs"

definition FNVStrategy_Hash :: HashStrategy where
  "FNVStrategy_Hash data i =
     (let seed = [of_nat i, of_nat (i div 2 ^ 8), of_nat (i div 2 ^ 16), of_nat (i div 2 ^ 24)]
      in fnv64a (fnv64a 14695981039346656037 seed) data)"

text \<open>
  Handles for the examples below: key \<open>''k''\<close>, 96 bits and 7 rounds, the FNV strategy,
  a client that is or is not a \<^verbatim>\<open>*RedisAdapter\<close>, and a server that holds nothing yet.
\<close>

definition adapter_client :: RedisClient where
  "adapter_client = \<lparr>is_RedisAdapter = True, pipeline_nil = False\<rparr>"

definition other_client :: RedisClient where
  "other_client = \<lparr>is_RedisAdapter = False, pipeline_nil = False\<rparr>"

definition example_config :: "RedisClient \<Rightarrow> int \<Rightarrow> Config" where
  "example_config client ttl =
     \<lparr>RedisKey = ''k'', RedisClient = Some client, ExpectedInsertions = 10,
      FalsePositiveRate = Finite (1 / 100), TTL = ttl, HashStrategy = Some FNVStrategy_Hash\<rparr>"

definition example_filter :: "RedisClient \<Rightarrow> int \<Rightarrow> bloomFilter" where
  "example_filter client ttl =
     \<lparr>config = example_config client ttl, bitSize = 96, hashCount = 7,
      hashStrategy = FNVStrategy_Hash\<rparr>"

definition empty_redis :: redis where
  "empty_redis = \<lparr>bits = {}, expiry = (\<lambda>key. None), issued = []\<rparr>"

text \<open>The server after the element \<open>ab\<close> was added to an empty one through the example filter.\<close>

definition example_after_Add :: redis where
  "example_after_Add =
     \<lparr>bits = {(''k'', 26), (''k'', 1), (''k'', 72), (''k'', 47), (''k'', 22), (''k'', 93),
              (''k'', 68)},
      expiry = (\<lambda>key. None),
      issued = [Batch [SetBit ''k'' 26 1, SetBit ''k'' 1 1, SetBit ''k'' 72 1,
                       SetBit ''k'' 47 1, SetBit ''k'' 22 1, SetBit ''k'' 93 1,
                       SetBit ''k'' 68 1]]\<rparr>"

text \<open>A client whose \<^verbatim>\<open>Pipeline()\<close> returns the nil interface.\<close>

definition broken_client :: RedisClient where
  "broken_client = \<lparr>is_RedisAdapter = True, pipeline_nil = True\<rparr>"

section \<open>Properties\<close>

subsection \<open>The position loop\<close>

text \<open>
  With a non-zero modulus the loop fills the slice from index \<open>i\<close> on and leaves the
  entries before \<open>i\<close> alone.
\<close>

lemma positions_loop_eq:
  "m \<noteq> 0 \<Longrightarrow> i \<le> k \<Longrightarrow> length ps = k \<Longrightarrow>
   positions_loop i k h1 h2 m ps =
     Some (take i ps @ map (\<lambda>j. (h1 + of_nat j * h2) mod m) [i..<k])"
proof (induction i k h1 h2 m ps rule: positions_loop.induct)
  case (1 i k h1 h2 m ps)
  show ?case
  proof (cases "i < k")
    case True
    let ?ps' = "ps[i := (h1 + of_nat i * h2) mod m]"
    have "positions_loop i k h1 h2 m ps = positions_loop (i + 1) k h1 h2 m ?ps'"
      using True "1.prems"(1) by (subst positions_loop.simps) simp
    also have "\<dots> = Some (take (i + 1) ?ps' @ map (\<lambda>j. (h1 + of_nat j * h2) mod m) [i + 1..<k])"
      using "1.IH" [OF True "1.prems"(1)] True "1.prems" by simp
    also have "take (i + 1) ?ps' = take i ps @ [(h1 + of_nat i * h2) mod m]"
      using True "1.prems"(3) by (simp add: take_Suc_conv_app_nth)
    finally show ?thesis
      using True by (simp add: upt_conv_Cons)
  next
    case False
    with "1.prems" show ?thesis
      by (subst positions_loop.simps) simp
  qed
qed

lemma positions_loop_zero:
  "positions_loop i k h1 h2 0 ps = (if i < k then None else Some ps)"
  by (subst positions_loop.simps) simp

lemma getHashPositions_eq:
  "bitSize bf \<noteq> 0 \<Longrightarrow>
   getHashPositions bf data =
     Some (map (\<lambda>j. (hashStrategy bf data 0 +
                      of_nat j * (if hashStrategy bf data 1 mod 2 = 0
                                  then hashStrategy bf data 1 + 1
                                  else hashStrategy bf data 1)) mod bitSize bf)
             [0..<hashCount bf])"
  by (simp add: getHashPositions_def Let_def positions_loop_eq)

lemma getHashPositions_zero:
  "bitSize bf = 0 \<Longrightarrow>
   getHashPositions bf data = (if 0 < hashCount bf then None else Some [])"
  by (simp add: getHashPositions_def Let_def positions_loop_zero)

subsection \<open>Batches at the server\<close>

lemma queue_SetBits_eq:
  "queue_SetBits key ps pipe = pipe @ map (\<lambda>pos. SetBit key (sint pos) 1) ps"
  by (induction ps arbitrary: pipe) auto

lemma queue_GetBits_eq:
  "queue_GetBits key ps pipe = pipe @ map (\<lambda>pos. GetBit key (sint pos)) ps"
  by (induction ps arbitrary: pipe) auto

lemma run_all_SetBits:
  "snd (run_all (map (\<lambda>pos. SetBit key (sint pos) 1) ps) B) =
     B \<union> (\<lambda>pos. (key, sint pos)) ` set ps"
  by (induction ps arbitrary: B) (auto simp: split_def Let_def)

lemma run_all_GetBits:
  "run_all (map (\<lambda>pos. GetBit key (sint pos)) ps) B =
     (map (\<lambda>pos. if (key, sint pos) \<in> B then 1 else 0) ps, B)"
  by (induction ps arbitrary: B) (auto simp: split_def Let_def)

text \<open>
  Whatever part of a batch of SETBIT-to-1 commands lands, no bit is cleared and no bit
  outside the batch is set.
\<close>

lemma run_some_SetBits_bounds:
  "B \<subseteq> run_some ls (map (\<lambda>pos. SetBit key (sint pos) 1) ps) B \<and>
   run_some ls (map (\<lambda>pos. SetBit key (sint pos) 1) ps) B
     \<subseteq> B \<union> (\<lambda>pos. (key, sint pos)) ` set ps"
proof (induction ps arbitrary: ls B)
  case Nil
  show ?case by (cases ls) simp_all
next
  case (Cons p ps)
  show ?case
  proof (cases ls)
    case Nil
    then show ?thesis by auto
  next
    case (Cons l ls')
    show ?thesis
      using Cons.IH [of "insert (key, sint p) B" ls'] Cons.IH [of B ls'] Cons
      by (cases l) auto
  qed
qed

lemma run_some_GetBits:
  "run_some ls (map (\<lambda>pos. GetBit key (sint pos)) ps) B = B"
proof (induction ps arbitrary: ls)
  case Nil
  show ?case by (cases ls) simp_all
next
  case (Cons p ps)
  then show ?case by (cases ls) simp_all
qed

lemma all_bits_set_iff: "all_bits_set vals \<longleftrightarrow> 0 \<notin> set vals"
  by (induction vals) auto

subsection \<open>Add and Exists, case by case\<close>

lemma Add_Delivered:
  assumes "getHashPositions bf e = Some ps" "RedisClient (config bf) = Some client"
    "\<not> pipeline_nil client"
  shows "Add bf e Delivered x r =
     Some (None,
       (let rb = r\<lparr>bits := bits r \<union> (\<lambda>pos. (RedisKey (config bf), sint pos)) ` set ps,
                     issued := issued r @
                       [Batch (map (\<lambda>pos. SetBit (RedisKey (config bf)) (sint pos) 1) ps)]\<rparr>
        in if TTL (config bf) > 0 \<and> is_RedisAdapter client
           then Expire_call x (RedisKey (config bf)) (TTL (config bf)) rb else rb))"
  using assms
  by (simp add: Add_def Pipeline_def Exec_def queue_SetBits_eq split_def Let_def run_all_SetBits)

lemma Add_Failed:
  assumes "getHashPositions bf e = Some ps" "RedisClient (config bf) = Some client"
    "\<not> pipeline_nil client"
  shows "Add bf e (Failed err landed) x r =
     Some (Some err,
       r\<lparr>bits := run_some landed (map (\<lambda>pos. SetBit (RedisKey (config bf)) (sint pos) 1) ps) (bits r),
         issued := issued r @
           [Batch (map (\<lambda>pos. SetBit (RedisKey (config bf)) (sint pos) 1) ps)]\<rparr>)"
  using assms
  by (simp add: Add_def Pipeline_def Exec_def queue_SetBits_eq Let_def)

lemma Add_no_pipeline:
  assumes "getHashPositions bf e = Some ps" "RedisClient (config bf) = Some client"
    "pipeline_nil client"
  shows "Add bf e outcome x r = Some (Some ErrNilRedisClient, r)"
  using assms by (simp add: Add_def Pipeline_def)

text \<open>A call of \<^verbatim>\<open>Add\<close> that returned nil had positions, a pipeline and a delivered batch.\<close>

lemma Add_Some_None:
  assumes "Add bf e outcome x r = Some (None, r1)"
  obtains ps client where "getHashPositions bf e = Some ps"
    "RedisClient (config bf) = Some client" "\<not> pipeline_nil client" "outcome = Delivered"
proof -
  from assms obtain ps where ps: "getHashPositions bf e = Some ps"
    by (auto simp: Add_def split: option.splits)
  from assms ps obtain client where c: "RedisClient (config bf) = Some client"
    by (auto simp: Add_def split: option.splits)
  have np: "\<not> pipeline_nil client"
    using assms Add_no_pipeline [OF ps c] by auto
  have "outcome = Delivered"
    using assms Add_Failed [OF ps c np] by (cases outcome) auto
  with ps c np that show thesis by blast
qed

lemma Exists_Delivered:
  assumes "getHashPositions bf e = Some ps" "RedisClient (config bf) = Some client"
    "\<not> pipeline_nil client"
  shows "Exists bf e Delivered r =
     Some (((\<forall>pos\<in>set ps. (RedisKey (config bf), sint pos) \<in> bits r), None),
           r\<lparr>issued := issued r @ [Batch (map (\<lambda>pos. GetBit (RedisKey (config bf)) (sint pos)) ps)]\<rparr>)"
  using assms
  by (auto simp: Exists_def Pipeline_def Exec_def queue_GetBits_eq run_all_GetBits
      all_bits_set_iff)

lemma Exists_Failed:
  assumes "getHashPositions bf e = Some ps" "RedisClient (config bf) = Some client"
    "\<not> pipeline_nil client"
  shows "Exists bf e (Failed err landed) r =
     Some ((False, Some err),
           r\<lparr>issued := issued r @ [Batch (map (\<lambda>pos. GetBit (RedisKey (config bf)) (sint pos)) ps)]\<rparr>)"
  using assms
  by (simp add: Exists_def Pipeline_def Exec_def queue_GetBits_eq run_some_GetBits)

lemma Exists_no_pipeline:
  assumes "getHashPositions bf e = Some ps" "RedisClient (config bf) = Some client"
    "pipeline_nil client"
  shows "Exists bf e outcome r = Some ((False, Some ErrNilRedisClient), r)"
  using assms by (simp add: Exists_def Pipeline_def)

subsection \<open>Word arithmetic of a position\<close>




subsection \<open>What a query reads and what an insert writes\<close>

lemma Exec_Delivered_GetBits:
  "Exec Delivered (queue_GetBits key ps []) r =
     (Inr (map (\<lambda>pos. if (key, sint pos) \<in> bits r then 1 else 0) ps),
      r\<lparr>issued := issued r @ [Batch (map (\<lambda>pos. GetBit key (sint pos)) ps)]\<rparr>)"
  by (simp add: Exec_def queue_GetBits_eq run_all_GetBits)

text \<open>The result of \<^verbatim>\<open>Exists\<close> depends on the server through its bits only.\<close>

lemma Exists_bits_only:
  assumes "bits r = bits r'"
  shows "map_option fst (Exists bf e outcome r) = map_option fst (Exists bf e outcome r')"
  using assms
  by (cases outcome)
     (simp_all add: Exists_def Exec_def split_def Let_def split: option.splits)

lemma bits_Expire_call [simp]: "bits (Expire_call x key ttl r) = bits r"
  by (simp add: Expire_call_def)

lemma Add_Delivered_bits:
  assumes "Add bf e outcome x r = Some (None, r1)"
  obtains ps client where "getHashPositions bf e = Some ps"
    "RedisClient (config bf) = Some client" "\<not> pipeline_nil client"
    "bits r1 = bits r \<union> (\<lambda>pos. (RedisKey (config bf), sint pos)) ` set ps"
proof -
  from assms obtain ps client where ps: "getHashPositions bf e = Some ps"
    and c: "RedisClient (config bf) = Some client" and np: "\<not> pipeline_nil client"
    and d: "outcome = Delivered"
    by (rule Add_Some_None)
  from assms Add_Delivered [OF ps c np, of x r]
  have "bits r1 = bits r \<union> (\<lambda>pos. (RedisKey (config bf), sint pos)) ` set ps"
    unfolding d by (auto simp: Let_def split: if_splits)
  with ps c np that show thesis by blast
qed

subsection \<open>A second insert, and the expiry branch\<close>

lemma run_some_SetBits_present:
  assumes "(\<lambda>pos. (key, sint pos)) ` set ps \<subseteq> B"
  shows "run_some ls (map (\<lambda>pos. SetBit key (sint pos) 1) ps) B = B"
  using run_some_SetBits_bounds [of B ls key ps] assms by blast

lemma getHashPositions_config [simp]:
  "getHashPositions (bf\<lparr>config := c\<rparr>) e = getHashPositions bf e"
  by (simp add: getHashPositions_def)

text \<open>
  The error returned by \<^verbatim>\<open>Add\<close>: neither \<^verbatim>\<open>TTL\<close> nor the outcome of the expiry request
  occurs in it.
\<close>

lemma Add_result:
  "map_option fst (Add bf e outcome x r) =
     (case getHashPositions bf e of
        None \<Rightarrow> None
      | Some ps \<Rightarrow>
          (case RedisClient (config bf) of
             None \<Rightarrow> None
           | Some client \<Rightarrow>
               Some (if pipeline_nil client then Some ErrNilRedisClient
                     else case outcome of Delivered \<Rightarrow> None | Failed err landed \<Rightarrow> Some err)))"
proof (cases "getHashPositions bf e")
  case None
  then show ?thesis by (simp add: Add_def)
next
  case (Some ps)
  show ?thesis
  proof (cases "RedisClient (config bf)")
    case None
    with Some show ?thesis by (simp add: Add_def)
  next
    case client: (Some client)
    show ?thesis
    proof (cases "pipeline_nil client")
      case True
      with Some client Add_no_pipeline [OF Some client True] show ?thesis by simp
    next
      case False
      show ?thesis
      proof (cases outcome)
        case Delivered
        with Some client False Add_Delivered [OF Some client False] show ?thesis by simp
      next
        case (Failed err landed)
        with Some client False Add_Failed [OF Some client False] show ?thesis by simp
      qed
    qed
  qed
qed

lemma Add_no_expiry:
  assumes ttl: "TTL (config bf) \<le> 0" and add: "Add bf e outcome x r = Some (res, r')"
  shows "filter is_Expire (issued r') = filter is_Expire (issued r) \<and> expiry r' = expiry r"
proof -
  from add obtain ps where ps: "getHashPositions bf e = Some ps"
    by (auto simp: Add_def split: option.splits)
  from add ps obtain client where c: "RedisClient (config bf) = Some client"
    by (auto simp: Add_def split: option.splits)
  show ?thesis
  proof (cases "pipeline_nil client")
    case True
    with add Add_no_pipeline [OF ps c True] show ?thesis by simp
  next
    case False
    show ?thesis
    proof (cases outcome)
      case Delivered
      with add ttl Add_Delivered [OF ps c False, of x r] show ?thesis by auto
    next
      case (Failed err landed)
      with add Add_Failed [OF ps c False, of err landed x r] show ?thesis by auto
    qed
  qed
qed

subsection \<open>The checks of the constructor\<close>

text \<open>
  The four checks in their order, and the rates the second check rejects: every float64
  but the numbers strictly between 0 and 1, and NaN.
\<close>

lemma NewBloomFilter_checks:
  "NewBloomFilter calc xxhash cfg =
     (if ExpectedInsertions cfg = 0 then Inl ErrInvalidExpectedInsertions
      else if float64_le (FalsePositiveRate cfg) 0 \<or> float64_ge (FalsePositiveRate cfg) 1
        then Inl ErrInvalidFalsePositiveRate
      else if RedisKey cfg = [] then Inl ErrEmptyRedisKey
      else if RedisClient cfg = None then Inl ErrNilRedisClient
      else Inr \<lparr>config = cfg\<lparr>HashStrategy :=
                    Some (case HashStrategy cfg of None \<Rightarrow> xxhash | Some s \<Rightarrow> s)\<rparr>,
                bitSize = fst (calc (ExpectedInsertions cfg) (FalsePositiveRate cfg)),
                hashCount = snd (calc (ExpectedInsertions cfg) (FalsePositiveRate cfg)),
                hashStrategy = (case HashStrategy cfg of None \<Rightarrow> xxhash | Some s \<Rightarrow> s)\<rparr>)"
  by (simp add: NewBloomFilter_def split_def Let_def)

lemma rate_rejected_iff:
  "float64_le p 0 \<or> float64_ge p 1 \<longleftrightarrow> p \<noteq> NaN \<and> (\<forall>x. p = Finite x \<longrightarrow> x \<le> 0 \<or> 1 \<le> x)"
  by (cases p) auto

subsection \<open>The example filter\<close>

text \<open>The positions of the element \<open>ab\<close> in the example filter, and its insertion.\<close>

lemma example_positions:
  "getHashPositions (example_filter client ttl) [97, 98] = Some [26, 1, 72, 47, 22, 93, 68]"
  by (simp add: getHashPositions_eq example_filter_def FNVStrategy_Hash_def upt_conv_Cons)

lemma example_Add:
  "Add (example_filter other_client 0) [97, 98] Delivered True empty_redis =
     Some (None,
       \<lparr>bits = {(''k'', 26), (''k'', 1), (''k'', 72), (''k'', 47), (''k'', 22), (''k'', 93),
                (''k'', 68)},
        expiry = (\<lambda>key. None),
        issued = [Batch [SetBit ''k'' 26 1, SetBit ''k'' 1 1, SetBit ''k'' 72 1,
                         SetBit ''k'' 47 1, SetBit ''k'' 22 1, SetBit ''k'' 93 1,
                         SetBit ''k'' 68 1]]\<rparr>)"
  by (subst Add_Delivered [OF example_positions, of _ _ other_client])
     (simp_all add: example_filter_def example_config_def other_client_def empty_redis_def)

section \<open>The claims\<close>

subsection \<open>Position generation\<close>



subsection \<open>Query results\<close>

text \<open>
  Claim C2. Let \<^verbatim>\<open>Exists\<close> have its positions and its pipeline. When the batched read is
  delivered, the reply at index \<open>i\<close> is the bit the server holds at the \<open>i\<close>-th
  position, there are as many replies as positions, and \<^verbatim>\<open>Exists\<close> returns present =
  true exactly when every reply is 1, with a nil error. When the batched read fails with
  \<open>err\<close>, \<^verbatim>\<open>Exists\<close> returns \<open>err\<close> (with present = false), which differs from
  an answer "absent" with a nil error.
\<close>

theorem Exists_result:
  assumes ps: "getHashPositions bf e = Some ps"
    and client: "RedisClient (config bf) = Some client"
    and pipe: "Pipeline client = Some pipe"
  shows "\<exists>vals r'.
           Exec Delivered (queue_GetBits (RedisKey (config bf)) ps pipe) r = (Inr vals, r') \<and>
           length vals = length ps \<and>
           (\<forall>i<length ps.
              vals ! i = (if (RedisKey (config bf), sint (ps ! i)) \<in> bits r then 1 else 0)) \<and>
           Exists bf e Delivered r = Some (((\<forall>v\<in>set vals. v = 1), None), r') \<and>
           (\<forall>err landed. \<exists>r''. Exists bf e (Failed err landed) r = Some ((False, Some err), r''))"
proof -
  from pipe have np: "\<not> pipeline_nil client" and pipe_eq: "pipe = []"
    by (auto simp: Pipeline_def split: if_splits)
  let ?key = "RedisKey (config bf)"
  let ?vals = "map (\<lambda>pos. if (?key, sint pos) \<in> bits r then 1 else 0 :: int) ps"
  let ?r' = "r\<lparr>issued := issued r @ [Batch (map (\<lambda>pos. GetBit ?key (sint pos)) ps)]\<rparr>"
  have ex: "Exec Delivered (queue_GetBits ?key ps pipe) r = (Inr ?vals, ?r')"
    unfolding pipe_eq by (rule Exec_Delivered_GetBits)
  have len: "length ?vals = length ps" by simp
  have nth: "\<forall>i<length ps. ?vals ! i = (if (?key, sint (ps ! i)) \<in> bits r then 1 else 0)"
    by simp
  have all: "(\<forall>v\<in>set ?vals. v = 1) \<longleftrightarrow> (\<forall>pos\<in>set ps. (?key, sint pos) \<in> bits r)"
    by (induction ps) auto
  have del: "Exists bf e Delivered r = Some (((\<forall>v\<in>set ?vals. v = 1), None), ?r')"
    unfolding all by (rule Exists_Delivered [OF ps client np])
  have fail: "\<forall>err landed. \<exists>r''. Exists bf e (Failed err landed) r = Some ((False, Some err), r'')"
    using Exists_Failed [OF ps client np] by blast
  from ex len nth del fail show ?thesis by blast
qed

theorem Exists_result_witness:
  "Exists (example_filter other_client 0) [97, 98] Delivered
     (empty_redis\<lparr>bits := {(''k'', 26), (''k'', 1), (''k'', 72), (''k'', 47), (''k'', 22),
                           (''k'', 93)}\<rparr>) =
     Some ((False, None),
       empty_redis\<lparr>bits := {(''k'', 26), (''k'', 1), (''k'', 72), (''k'', 47), (''k'', 22),
                            (''k'', 93)},
                   issued := [Batch [GetBit ''k'' 26, GetBit ''k'' 1, GetBit ''k'' 72,
                     GetBit ''k'' 47, GetBit ''k'' 22, GetBit ''k'' 93, GetBit ''k'' 68]]\<rparr>) \<and>
   (\<exists>r''. Exists (example_filter other_client 0) [97, 98] (Failed (StoreError ''EOF'') []) empty_redis =
      Some ((False, Some (StoreError ''EOF'')), r''))"
proof -
  let ?bf = "example_filter other_client 0"
  let ?r = "empty_redis\<lparr>bits := {(''k'', 26), (''k'', 1), (''k'', 72), (''k'', 47), (''k'', 22),
                           (''k'', 93)}\<rparr>"
  have ps: "getHashPositions ?bf [97, 98] = Some [26, 1, 72, 47, 22, 93, 68]"
    by (rule example_positions)
  have client: "RedisClient (config ?bf) = Some other_client"
    by (simp add: example_filter_def example_config_def)
  have pipe: "Pipeline other_client = Some []"
    by (simp add: Pipeline_def other_client_def)
  have key: "RedisKey (config ?bf) = ''k''"
    by (simp add: example_filter_def example_config_def)
  from Exists_result [OF ps client pipe, of ?r]
  obtain vals r' where
    ex: "Exec Delivered (queue_GetBits ''k'' [26, 1, 72, 47, 22, 93, 68] []) ?r = (Inr vals, r')"
    and res: "Exists ?bf [97, 98] Delivered ?r = Some (((\<forall>v\<in>set vals. v = 1), None), r')"
    unfolding key by blast
  from ex have vals: "vals = [1, 1, 1, 1, 1, 1, 0]"
    and r': "r' = ?r\<lparr>issued := [Batch [GetBit ''k'' 26, GetBit ''k'' 1, GetBit ''k'' 72,
                     GetBit ''k'' 47, GetBit ''k'' 22, GetBit ''k'' 93, GetBit ''k'' 68]]\<rparr>"
    by (auto simp: Exec_def empty_redis_def)
  have first: "Exists ?bf [97, 98] Delivered ?r = Some ((False, None), r')"
    using res unfolding vals by simp
  from Exists_result [OF ps client pipe, of empty_redis]
  have second: "\<exists>r''. Exists ?bf [97, 98] (Failed (StoreError ''EOF'') []) empty_redis =
      Some ((False, Some (StoreError ''EOF'')), r'')"
    by blast
  from first second show ?thesis
    unfolding r' by (simp add: empty_redis_def)
qed

subsection \<open>No false negatives\<close>

text \<open>
  Claim C1. If \<^verbatim>\<open>Add(e)\<close> returned nil (which it does only when its batch was delivered
  in full) and afterwards no bit under the filter's key was cleared, then \<^verbatim>\<open>Exists(e)\<close> on
  the same handle, its batched read delivered, returns present = true and a nil error;
  and whatever happens to the read, \<^verbatim>\<open>Exists(e)\<close> never returns present = false with a
  nil error.
\<close>

theorem Add_then_Exists:
  assumes add: "Add bf e outcome expire_succeeds r = Some (None, r1)"
    and kept: "\<forall>offset. (RedisKey (config bf), offset) \<in> bits r1 \<longrightarrow>
                 (RedisKey (config bf), offset) \<in> bits r2"
  shows "(\<exists>r3. Exists bf e Delivered r2 = Some ((True, None), r3)) \<and>
         (\<forall>outcome' res r3. Exists bf e outcome' r2 = Some (res, r3) \<longrightarrow> res \<noteq> (False, None))"
proof -
  from add obtain ps client where ps: "getHashPositions bf e = Some ps"
    and c: "RedisClient (config bf) = Some client" and np: "\<not> pipeline_nil client"
    and b: "bits r1 = bits r \<union> (\<lambda>pos. (RedisKey (config bf), sint pos)) ` set ps"
    by (rule Add_Delivered_bits)
  have set: "\<forall>pos\<in>set ps. (RedisKey (config bf), sint pos) \<in> bits r2"
    using b kept by auto
  have present: "\<exists>r3. Exists bf e Delivered r2 = Some ((True, None), r3)"
    using Exists_Delivered [OF ps c np, of r2] set by simp
  have never_absent: "res \<noteq> (False, None)"
    if "Exists bf e outcome' r2 = Some (res, r3)" for outcome' res r3
  proof (cases outcome')
    case Delivered
    with that Exists_Delivered [OF ps c np, of r2] set show ?thesis by auto
  next
    case (Failed err landed)
    with that Exists_Failed [OF ps c np, of err landed r2] show ?thesis by auto
  qed
  from present never_absent show ?thesis by blast
qed

theorem Add_then_Exists_witness:
  "Add (example_filter other_client 0) [97, 98] Delivered True empty_redis =
     Some (None, example_after_Add) \<and>
   (\<exists>r3. Exists (example_filter other_client 0) [97, 98] Delivered
           (example_after_Add\<lparr>bits := insert (''k'', 5) (bits example_after_Add)\<rparr>) =
         Some ((True, None), r3))"
proof -
  let ?bf = "example_filter other_client 0"
  let ?r2 = "example_after_Add\<lparr>bits := insert (''k'', 5) (bits example_after_Add)\<rparr>"
  have add: "Add ?bf [97, 98] Delivered True empty_redis = Some (None, example_after_Add)"
    unfolding example_after_Add_def by (rule example_Add)
  have kept: "\<forall>offset. (RedisKey (config ?bf), offset) \<in> bits example_after_Add \<longrightarrow>
                 (RedisKey (config ?bf), offset) \<in> bits ?r2"
    by simp
  from Add_then_Exists [OF add kept] add show ?thesis by blast
qed

subsection \<open>Inserting twice\<close>

text \<open>
  Claim C8. After an \<^verbatim>\<open>Add(e)\<close> that returned nil, a second \<^verbatim>\<open>Add(e)\<close> on the same
  handle returns (nil when its batch is delivered) and leaves the bits of the server as the
  first one left them, whatever part of its batch lands; every later \<^verbatim>\<open>Exists\<close>, for
  any handle, element and outcome of its read, returns the same result in the state after
  two inserts as in the state after one.
\<close>

theorem Add_idempotent:
  assumes first: "Add bf e outcome1 x1 r = Some (None, r1)"
  shows "\<exists>res2 r2. Add bf e outcome2 x2 r1 = Some (res2, r2) \<and>
           (outcome2 = Delivered \<longrightarrow> res2 = None) \<and>
           bits r2 = bits r1 \<and>
           (\<forall>bf' e' outcome'.
              map_option fst (Exists bf' e' outcome' r2) =
              map_option fst (Exists bf' e' outcome' r1))"
proof -
  from first obtain ps client where ps: "getHashPositions bf e = Some ps"
    and c: "RedisClient (config bf) = Some client" and np: "\<not> pipeline_nil client"
    and b: "bits r1 = bits r \<union> (\<lambda>pos. (RedisKey (config bf), sint pos)) ` set ps"
    by (rule Add_Delivered_bits)
  from b have sub: "(\<lambda>pos. (RedisKey (config bf), sint pos)) ` set ps \<subseteq> bits r1"
    by blast
  obtain res2 r2 where second: "Add bf e outcome2 x2 r1 = Some (res2, r2)"
    and nil: "outcome2 = Delivered \<longrightarrow> res2 = None"
    and same: "bits r2 = bits r1"
  proof (cases outcome2)
    case Delivered
    with Add_Delivered [OF ps c np, of x2 r1] sub that show thesis
      by (auto simp: Let_def Un_absorb2 split: if_splits)
  next
    case (Failed err landed)
    with Add_Failed [OF ps c np, of err landed x2 r1] run_some_SetBits_present [OF sub] that
    show thesis by simp
  qed
  from same have "map_option fst (Exists bf' e' outcome' r2) =
      map_option fst (Exists bf' e' outcome' r1)" for bf' e' outcome'
    by (rule Exists_bits_only)
  with second nil same show ?thesis by blast
qed

theorem Add_idempotent_witness:
  "Add (example_filter other_client 0) [97, 98] Delivered True empty_redis =
     Some (None, example_after_Add) \<and>
   (\<exists>r2. Add (example_filter other_client 0) [97, 98] Delivered True example_after_Add =
           Some (None, r2) \<and> bits r2 = bits example_after_Add \<and>
           map_option fst (Exists (example_filter other_client 0) [120] Delivered r2) =
           map_option fst (Exists (example_filter other_client 0) [120] Delivered example_after_Add))"
proof -
  have first: "Add (example_filter other_client 0) [97, 98] Delivered True empty_redis =
     Some (None, example_after_Add)"
    unfolding example_after_Add_def by (rule example_Add)
  from Add_idempotent [OF first, of Delivered True] first show ?thesis
    by blast
qed

subsection \<open>A client without a pipeline\<close>

text \<open>
  Claim C9. When the client of a handle is not nil but its \<^verbatim>\<open>Pipeline()\<close> yields no
  pipeliner, \<^verbatim>\<open>Add\<close> returns \<open>ErrNilRedisClient\<close> and \<^verbatim>\<open>Exists\<close> returns present =
  false with \<open>ErrNilRedisClient\<close>, and the server is left as it was: no request is issued
  and no bit changes. (Both operations compute the positions first, so the handle is one
  whose positions exist.) It is the error the constructor returns for a configuration
  that passes the first three checks and has no client.
\<close>

theorem no_pipeline:
  assumes ps: "getHashPositions bf e = Some ps"
    and client: "RedisClient (config bf) = Some client"
    and nil: "Pipeline client = None"
  shows "Add bf e outcome expire_succeeds r = Some (Some ErrNilRedisClient, r) \<and>
         Exists bf e outcome r = Some ((False, Some ErrNilRedisClient), r) \<and>
         (\<forall>calc xxhash cfg.
            ExpectedInsertions cfg \<noteq> 0 \<and> \<not> float64_le (FalsePositiveRate cfg) 0 \<and>
            \<not> float64_ge (FalsePositiveRate cfg) 1 \<and> RedisKey cfg \<noteq> [] \<and>
            RedisClient cfg = None \<longrightarrow>
            NewBloomFilter calc xxhash cfg = Inl ErrNilRedisClient)"
proof -
  from nil have "pipeline_nil client"
    by (simp add: Pipeline_def split: if_splits)
  from Add_no_pipeline [OF ps client this] Exists_no_pipeline [OF ps client this]
  show ?thesis by (simp add: NewBloomFilter_def)
qed

theorem no_pipeline_witness:
  "Add (example_filter broken_client 0) [97, 98] Delivered True empty_redis =
     Some (Some ErrNilRedisClient, empty_redis) \<and>
   Exists (example_filter broken_client 0) [97, 98] Delivered empty_redis =
     Some ((False, Some ErrNilRedisClient), empty_redis) \<and>
   NewBloomFilter (\<lambda>n p. (96, 7)) FNVStrategy_Hash
       ((example_config broken_client 0)\<lparr>RedisClient := None\<rparr>) = Inl ErrNilRedisClient"
proof -
  have ps: "getHashPositions (example_filter broken_client 0) [97, 98] =
      Some [26, 1, 72, 47, 22, 93, 68]"
    by (rule example_positions)
  have client: "RedisClient (config (example_filter broken_client 0)) = Some broken_client"
    by (simp add: example_filter_def example_config_def)
  have nil: "Pipeline broken_client = None"
    by (simp add: Pipeline_def broken_client_def)
  have cfg: "ExpectedInsertions ((example_config broken_client 0)\<lparr>RedisClient := None\<rparr>) \<noteq> 0 \<and>
      \<not> float64_le (FalsePositiveRate ((example_config broken_client 0)\<lparr>RedisClient := None\<rparr>)) 0 \<and>
      \<not> float64_ge (FalsePositiveRate ((example_config broken_client 0)\<lparr>RedisClient := None\<rparr>)) 1 \<and>
      RedisKey ((example_config broken_client 0)\<lparr>RedisClient := None\<rparr>) \<noteq> [] \<and>
      RedisClient ((example_config broken_client 0)\<lparr>RedisClient := None\<rparr>) = None"
    by (simp add: example_config_def)
  from no_pipeline [OF ps client nil, of Delivered True empty_redis] cfg
  show ?thesis by blast
qed

subsection \<open>The expiry branch of Add\<close>

text \<open>
  Claim C10. When \<^verbatim>\<open>TTL\<close> is zero or negative, \<^verbatim>\<open>Add\<close> issues no expiry request and
  leaves the expiry of every key alone. The error \<^verbatim>\<open>Add\<close> returns is
  \<open>ErrNilRedisClient\<close> when there is no pipeline and otherwise the outcome of the batch
  (nil when delivered, its error when failed); it is the same for every \<^verbatim>\<open>TTL\<close> and
  every outcome of the expiry request.
\<close>

theorem Add_expiry_frame:
  "(\<forall>res r'. Add bf e outcome expire_succeeds r = Some (res, r') \<longrightarrow>
      (TTL (config bf) \<le> 0 \<longrightarrow>
         filter is_Expire (issued r') = filter is_Expire (issued r) \<and> expiry r' = expiry r) \<and>
      (\<forall>client. RedisClient (config bf) = Some client \<longrightarrow>
         res = (if pipeline_nil client then Some ErrNilRedisClient
                else case outcome of Delivered \<Rightarrow> None | Failed err landed \<Rightarrow> Some err))) \<and>
   (\<forall>ttl expire_succeeds'.
      map_option fst (Add (bf\<lparr>config := (config bf)\<lparr>TTL := ttl\<rparr>\<rparr>) e outcome expire_succeeds' r) =
      map_option fst (Add bf e outcome expire_succeeds r))"
proof -
  have a: "filter is_Expire (issued r') = filter is_Expire (issued r) \<and> expiry r' = expiry r"
    if "Add bf e outcome expire_succeeds r = Some (res, r')" "TTL (config bf) \<le> 0" for res r'
    using Add_no_expiry [OF that(2) that(1)] .
  have b: "res = (if pipeline_nil client then Some ErrNilRedisClient
                else case outcome of Delivered \<Rightarrow> None | Failed err landed \<Rightarrow> Some err)"
    if "Add bf e outcome expire_succeeds r = Some (res, r')"
      "RedisClient (config bf) = Some client" for res r' client
    using that Add_result [of bf e outcome expire_succeeds r]
    by (auto split: option.splits)
  have c: "map_option fst (Add (bf\<lparr>config := (config bf)\<lparr>TTL := ttl\<rparr>\<rparr>) e outcome expire_succeeds' r) =
      map_option fst (Add bf e outcome expire_succeeds r)" for ttl expire_succeeds'
    by (simp add: Add_result split: option.splits)
  from a b c show ?thesis by blast
qed

theorem Add_expiry_frame_witness:
  "Add (example_filter adapter_client 0) [97, 98] Delivered True empty_redis =
     Some (None, example_after_Add) \<and>
   filter is_Expire (issued example_after_Add) = filter is_Expire (issued empty_redis) \<and>
   map_option fst (Add ((example_filter adapter_client 0)
       \<lparr>config := (config (example_filter adapter_client 0))\<lparr>TTL := 5\<rparr>\<rparr>) [97, 98] Delivered False
       empty_redis) = Some None"
proof -
  let ?bf = "example_filter adapter_client 0"
  have add: "Add ?bf [97, 98] Delivered True empty_redis = Some (None, example_after_Add)"
    unfolding example_after_Add_def
    by (subst Add_Delivered [OF example_positions, of _ _ adapter_client])
       (simp_all add: example_filter_def example_config_def adapter_client_def empty_redis_def)
  have ttl: "TTL (config ?bf) \<le> 0"
    by (simp add: example_filter_def example_config_def)
  from Add_expiry_frame [of ?bf "[97, 98]" Delivered True empty_redis] add ttl
  have "filter is_Expire (issued example_after_Add) = filter is_Expire (issued empty_redis)"
    and "map_option fst (Add (?bf\<lparr>config := (config ?bf)\<lparr>TTL := 5\<rparr>\<rparr>) [97, 98] Delivered False
       empty_redis) = map_option fst (Add ?bf [97, 98] Delivered True empty_redis)"
    by blast+
  with add show ?thesis by simp
qed

subsection \<open>Expiry refresh on insert\<close>

text \<open>
  Claim C3, as stated, fails in two ways. A handle with a positive \<^verbatim>\<open>TTL\<close> whose client
  is not a \<^verbatim>\<open>*RedisAdapter\<close> adds the element and issues no expiry request at all; and a
  handle on a \<^verbatim>\<open>*RedisAdapter\<close> whose expiry request fails returns nil, so the failure is
  not reported.
\<close>

theorem Add_expiry_refresh_counterexample:
  "Add (example_filter other_client 60000000000) [97, 98] Delivered True empty_redis =
     Some (None,
       \<lparr>bits = {(''k'', 26), (''k'', 1), (''k'', 72), (''k'', 47), (''k'', 22), (''k'', 93),
                (''k'', 68)},
        expiry = (\<lambda>key. None),
        issued = [Batch [SetBit ''k'' 26 1, SetBit ''k'' 1 1, SetBit ''k'' 72 1,
                         SetBit ''k'' 47 1, SetBit ''k'' 22 1, SetBit ''k'' 93 1,
                         SetBit ''k'' 68 1]]\<rparr>) \<and>
   Add (example_filter adapter_client 60000000000) [97, 98] Delivered False empty_redis =
     Some (None,
       \<lparr>bits = {(''k'', 26), (''k'', 1), (''k'', 72), (''k'', 47), (''k'', 22), (''k'', 93),
                (''k'', 68)},
        expiry = (\<lambda>key. None),
        issued = [Batch [SetBit ''k'' 26 1, SetBit ''k'' 1 1, SetBit ''k'' 72 1,
                         SetBit ''k'' 47 1, SetBit ''k'' 22 1, SetBit ''k'' 93 1,
                         SetBit ''k'' 68 1],
                  Expire ''k'' 60000000000]\<rparr>)"
proof -
  have other: "RedisClient (config (example_filter other_client 60000000000)) = Some other_client"
    and adapter:
      "RedisClient (config (example_filter adapter_client 60000000000)) = Some adapter_client"
    by (simp_all add: example_filter_def example_config_def)
  have np: "\<not> pipeline_nil other_client" "\<not> pipeline_nil adapter_client"
    by (simp_all add: other_client_def adapter_client_def)
  show ?thesis
    by (simp add: Add_Delivered [OF example_positions other np(1)]
        Add_Delivered [OF example_positions adapter np(2)])
       (simp add: example_filter_def example_config_def other_client_def adapter_client_def
        empty_redis_def Expire_call_def insert_commute)
qed

text \<open>
  Claim C3, amended. Let \<^verbatim>\<open>Add(e)\<close> return nil. Then it issued its batch of SETBIT
  commands and after it, when \<^verbatim>\<open>TTL\<close> is positive and the client is a \<^verbatim>\<open>*RedisAdapter\<close>,
  one \<^verbatim>\<open>Expire(key, TTL)\<close>; for any other client, or a \<^verbatim>\<open>TTL\<close> that is not positive, it
  issued nothing more. The bit at every position of \<open>e\<close> is set. The outcome of the
  expiry request is discarded: with the request succeeding or failing, \<^verbatim>\<open>Add\<close> returns
  nil, issues the same requests and leaves the same bits.
\<close>

theorem Add_expiry_refresh:
  assumes add: "Add bf e outcome expire_succeeds r = Some (None, r1)"
    and client: "RedisClient (config bf) = Some client"
  shows "\<exists>ps. getHashPositions bf e = Some ps \<and>
           issued r1 =
             issued r @ [Batch (map (\<lambda>pos. SetBit (RedisKey (config bf)) (sint pos) 1) ps)] @
             (if TTL (config bf) > 0 \<and> is_RedisAdapter client
              then [Expire (RedisKey (config bf)) (TTL (config bf))] else []) \<and>
           (\<forall>pos\<in>set ps. (RedisKey (config bf), sint pos) \<in> bits r1) \<and>
           (\<forall>expire_succeeds'. \<exists>r1'.
              Add bf e outcome expire_succeeds' r = Some (None, r1') \<and>
              bits r1' = bits r1 \<and> issued r1' = issued r1)"
proof -
  from add obtain ps client' where ps: "getHashPositions bf e = Some ps"
    and c': "RedisClient (config bf) = Some client'" and np': "\<not> pipeline_nil client'"
    and d: "outcome = Delivered"
    by (rule Add_Some_None)
  from c' client have [simp]: "client' = client" by simp
  from np' have np: "\<not> pipeline_nil client" by simp
  note eq = Add_Delivered [OF ps client np]
  from add eq [of expire_succeeds r]
  have r1: "r1 = (let rb = r\<lparr>bits := bits r \<union> (\<lambda>pos. (RedisKey (config bf), sint pos)) ` set ps,
                     issued := issued r @
                       [Batch (map (\<lambda>pos. SetBit (RedisKey (config bf)) (sint pos) 1) ps)]\<rparr>
        in if TTL (config bf) > 0 \<and> is_RedisAdapter client
           then Expire_call expire_succeeds (RedisKey (config bf)) (TTL (config bf)) rb else rb)"
    unfolding d by simp
  have issued: "issued r1 =
      issued r @ [Batch (map (\<lambda>pos. SetBit (RedisKey (config bf)) (sint pos) 1) ps)] @
      (if TTL (config bf) > 0 \<and> is_RedisAdapter client
       then [Expire (RedisKey (config bf)) (TTL (config bf))] else [])"
    unfolding r1 by (simp add: Let_def Expire_call_def)
  have bits: "\<forall>pos\<in>set ps. (RedisKey (config bf), sint pos) \<in> bits r1"
    unfolding r1 by (simp add: Let_def)
  have any: "\<exists>r1'. Add bf e outcome expire_succeeds' r = Some (None, r1') \<and>
              bits r1' = bits r1 \<and> issued r1' = issued r1" for expire_succeeds'
    unfolding d r1 eq [of expire_succeeds' r] by (simp add: Let_def Expire_call_def)
  from ps issued bits any show ?thesis by blast
qed

theorem Add_expiry_refresh_witness:
  "(\<exists>r1. Add (example_filter adapter_client 60000000000) [97, 98] Delivered False empty_redis =
       Some (None, r1) \<and>
     issued r1 =
       [Batch [SetBit ''k'' 26 1, SetBit ''k'' 1 1, SetBit ''k'' 72 1, SetBit ''k'' 47 1,
               SetBit ''k'' 22 1, SetBit ''k'' 93 1, SetBit ''k'' 68 1],
        Expire ''k'' 60000000000] \<and>
     (''k'', 68) \<in> bits r1)"
proof -
  let ?bf = "example_filter adapter_client 60000000000"
  have client: "RedisClient (config ?bf) = Some adapter_client"
    by (simp add: example_filter_def example_config_def)
  have np: "\<not> pipeline_nil adapter_client"
    by (simp add: adapter_client_def)
  obtain r1 where add: "Add ?bf [97, 98] Delivered False empty_redis = Some (None, r1)"
    using Add_Delivered [OF example_positions client np] by simp
  from Add_expiry_refresh [OF add client]
  obtain ps where ps: "getHashPositions ?bf [97, 98] = Some ps"
    and issued: "issued r1 =
             issued empty_redis @ [Batch (map (\<lambda>pos. SetBit (RedisKey (config ?bf)) (sint pos) 1) ps)] @
             (if TTL (config ?bf) > 0 \<and> is_RedisAdapter adapter_client
              then [Expire (RedisKey (config ?bf)) (TTL (config ?bf))] else [])"
    and bits: "\<forall>pos\<in>set ps. (RedisKey (config ?bf), sint pos) \<in> bits r1"
    by blast
  from ps have ps_eq: "ps = [26, 1, 72, 47, 22, 93, 68]"
    by (simp add: example_positions)
  from issued have "issued r1 =
       [Batch [SetBit ''k'' 26 1, SetBit ''k'' 1 1, SetBit ''k'' 72 1, SetBit ''k'' 47 1,
               SetBit ''k'' 22 1, SetBit ''k'' 93 1, SetBit ''k'' 68 1],
        Expire ''k'' 60000000000]"
    unfolding ps_eq
    by (simp add: example_filter_def example_config_def adapter_client_def empty_redis_def)
  moreover from bits have "(''k'', 68) \<in> bits r1"
    unfolding ps_eq by (simp add: example_filter_def example_config_def)
  ultimately show ?thesis using add by blast
qed

subsection \<open>Construction with a rate that is not a number\<close>

text \<open>
  Claim C6 requires \<open>ErrInvalidFalsePositiveRate\<close> for every rate outside the open interval
  from 0 to 1. For NaN both comparisons of the second check are false: with a key, a client
  and a non-zero \<^verbatim>\<open>ExpectedInsertions\<close>, the constructor returns a handle and no error.
\<close>

theorem NewBloomFilter_accepts_NaN:
  "NewBloomFilter calculateOptimalParameters NewXXHashStrategy
     \<lparr>RedisKey = ''k'', RedisClient = Some adapter_client, ExpectedInsertions = 1000,
      FalsePositiveRate = NaN, TTL = 0, HashStrategy = None\<rparr> =
   Inr \<lparr>config = \<lparr>RedisKey = ''k'', RedisClient = Some adapter_client,
                   ExpectedInsertions = 1000, FalsePositiveRate = NaN, TTL = 0,
                   HashStrategy = Some NewXXHashStrategy\<rparr>,
        bitSize = fst (calculateOptimalParameters 1000 NaN),
        hashCount = snd (calculateOptimalParameters 1000 NaN),
        hashStrategy = NewXXHashStrategy\<rparr>"
  by (simp add: NewBloomFilter_def split_def Let_def)

end
